theory Spec2Isabelle
  imports Complex_Main
begin

section \<open>Knee osteoarthritis detection from vibro-acoustic signals\<close>

text \<open>
  A shallow embedding of \<^verbatim>\<open>KneeOADetector\<close> (file \<^verbatim>\<open>VAG_Analysis.py\<close>): the detector
  object, the severity lookup, the decision table, the filtering stage and the spectral
  analysis.

  Conventions of the embedding.
  \<^item> A Python exception is the left injection of a sum type.
  \<^item> A floating-point number is a value of \<open>npfloat\<close>: a real number, one of the two
    infinities, or not-a-number. Rounding and overflow are idealised away (finite
    arithmetic is exact real arithmetic), signed zeros are not distinguished; the special
    values and the rules that produce them (\<open>0/0\<close>, \<open>x/0\<close>, comparisons with
    not-a-number) follow IEEE 754, which is what numpy computes.
  \<^item> A Python \<^verbatim>\<open>str\<close> is a \<open>string\<close> holding its UTF-8 encoding.
\<close>

subsection \<open>Exceptions and floating-point values\<close>

datatype py_error = ValueError | ZeroDivisionError | KeyError | IndexError

datatype npfloat = Fin real | PInf | NInf | NaN

text \<open>\<^verbatim>\<open>a >= b\<close> on floats: false as soon as one side is not-a-number.\<close>

fun np_ge :: "npfloat \<Rightarrow> npfloat \<Rightarrow> bool" where
  "np_ge NaN _ = False"
| "np_ge _ NaN = False"
| "np_ge PInf _ = True"
| "np_ge _ NInf = True"
| "np_ge NInf _ = False"
| "np_ge _ PInf = False"
| "np_ge (Fin x) (Fin y) = (y \<le> x)"

subsection \<open>The detector object\<close>

type_synonym interval = "npfloat \<times> npfloat"

record detector =
  fs :: real
  bandpass_range :: "real \<times> real"
  notch_freq :: real
  thresholds :: "string \<rightharpoonup> (string \<rightharpoonup> interval)"

text \<open>\<^verbatim>\<open>__init__\<close>: stores the sampling frequency and the constants; it checks nothing.\<close>

definition init :: "real \<Rightarrow> detector" where
  "init sampling =
     \<lparr> fs = sampling,
       bandpass_range = (50, 600),
       notch_freq = 50,
       thresholds = map_of
         [(''piezo'', map_of
             [(''healthy'', (Fin 30, Fin 80)),
              (''mild'', (Fin 80, Fin 120)),
              (''severe'', (Fin 120, PInf))]),
          (''mic'', map_of
             [(''healthy'', (Fin 100, Fin 350)),
              (''mild'', (Fin 350, Fin 450)),
              (''severe'', (Fin 450, PInf))])] \<rparr>"

text \<open>\<^verbatim>\<open>self.thresholds[sensor][severity]\<close>: either subscript raises \<^verbatim>\<open>KeyError\<close>.\<close>

definition threshold :: "detector \<Rightarrow> string \<Rightarrow> string \<Rightarrow> py_error + interval" where
  "threshold self sensor severity =
     (case thresholds self sensor of
        None \<Rightarrow> Inl KeyError
      | Some table \<Rightarrow>
          (case table severity of None \<Rightarrow> Inl KeyError | Some iv \<Rightarrow> Inr iv))"

subsection \<open>Severity logic\<close>

text \<open>
  \<^verbatim>\<open>get_severity_level\<close>: two comparisons against the lower bounds of the table, the
  severe one first. The frequency is a float; the \<^verbatim>\<open>None\<close> that the analysis returns for
  a short signal is not one (Python refuses to compare it with a number).
\<close>

definition get_severity_level :: "detector \<Rightarrow> npfloat \<Rightarrow> string \<Rightarrow> py_error + nat" where
  "get_severity_level self freq sensor =
     (case threshold self sensor ''severe'' of
        Inl e \<Rightarrow> Inl e
      | Inr severe \<Rightarrow>
          if np_ge freq (fst severe) then Inr 2
          else (case threshold self sensor ''mild'' of
                  Inl e \<Rightarrow> Inl e
                | Inr mild \<Rightarrow> if np_ge freq (fst mild) then Inr 1 else Inr 0))"

text \<open>The two non-ASCII characters of the source's string literals, in UTF-8.\<close>

definition en_dash :: string where
  "en_dash = [CHR 0xE2, CHR 0x80, CHR 0x93]"

definition rightwards_arrow :: string where
  "rightwards_arrow = [CHR 0xE2, CHR 0x86, CHR 0x92]"

definition research_basis :: "string list" where
  "research_basis =
     [CHR 0x0A # ''--- Research Basis ---'',
      ''Tamura et al., 2013 '' @ en_dash @ '' Mic >400 Hz correlates with KL3'' @ en_dash @ ''4'',
      ''Chandran et al., 2021 '' @ en_dash @ '' Piezo >120 Hz indicates sclerosis'',
      ''OARSI '' @ en_dash @ '' Dual-sensor VAG improves OA detection'']"

text \<open>
  \<^verbatim>\<open>diagnose\<close>: the two energy arguments are accepted and never read. The branch
  chooses the label and the notes; the citation block is appended afterwards.
\<close>

definition diagnose ::
  "detector \<Rightarrow> npfloat \<Rightarrow> npfloat \<Rightarrow> npfloat \<Rightarrow> npfloat \<Rightarrow> py_error + (string \<times> string list)"
where
  "diagnose self mic_freq piezo_freq mic_energy piezo_energy =
     (case get_severity_level self mic_freq ''mic'' of
        Inl e \<Rightarrow> Inl e
      | Inr mic_level \<Rightarrow>
     (case get_severity_level self piezo_freq ''piezo'' of
        Inl e \<Rightarrow> Inl e
      | Inr piezo_level \<Rightarrow>
          (let (diagnosis, notes) =
             (if mic_level \<ge> 1 \<and> piezo_level = 0 then
                (''Early Osteoarthritis (KL Grade 1'' @ en_dash @ ''2)'',
                 [''Mic shows elevated frequency '' @ rightwards_arrow @ '' cartilage roughening.'',
                  ''Piezo normal '' @ rightwards_arrow @ '' joint mechanics preserved.'',
                  ''MRI suggested for confirmation.''])
              else if piezo_level \<ge> 1 \<and> mic_level = 0 then
                (''Subchondral Bone Changes (Pre-OA)'',
                 [''Piezo frequency elevated '' @ rightwards_arrow @ '' bone remodeling.'',
                  ''Mic normal '' @ rightwards_arrow @ '' cartilage intact.'',
                  ''X-ray recommended.''])
              else if mic_level = piezo_level then
                (if mic_level = 2 then
                   (''Severe Osteoarthritis (KL Grade 3'' @ en_dash @ ''4)'',
                    [''Both sensors show pathological vibration.''])
                 else if mic_level = 1 then
                   (''Moderate Osteoarthritis (KL Grade 2'' @ en_dash @ ''3)'',
                    [''Degeneration in progress.''])
                 else
                   (''Healthy Knee (KL Grade 0)'',
                    [''No abnormal vibro-acoustic activity detected.'']))
              else
                (''Inconclusive'',
                 [''Sensor disagreement detected.'',
                  ''Repeat test or use imaging methods.'']))
           in Inr (diagnosis, notes @ research_basis))))"

subsection \<open>Python and numpy primitives\<close>

text \<open>Sequencing of computations that may raise: the first exception wins.\<close>

definition and_then :: "py_error + 'a \<Rightarrow> ('a \<Rightarrow> py_error + 'b) \<Rightarrow> py_error + 'b" where
  "and_then r f = (case r of Inl e \<Rightarrow> Inl e | Inr v \<Rightarrow> f v)"

text \<open>Python's \<^verbatim>\<open>x / y\<close> on numbers raises \<^verbatim>\<open>ZeroDivisionError\<close> when \<open>y\<close> is zero.\<close>

definition py_div :: "real \<Rightarrow> real \<Rightarrow> py_error + real" where
  "py_div x y = (if y = 0 then Inl ZeroDivisionError else Inr (x / y))"

text \<open>
  numpy's \<^verbatim>\<open>x / y\<close> on floats never raises: it follows IEEE 754 (and prints a warning)
  where the divisor is zero.
\<close>

fun np_div :: "npfloat \<Rightarrow> npfloat \<Rightarrow> npfloat" where
  "np_div NaN _ = NaN"
| "np_div _ NaN = NaN"
| "np_div (Fin x) (Fin y) =
     (if y \<noteq> 0 then Fin (x / y) else if x = 0 then NaN else if 0 < x then PInf else NInf)"
| "np_div (Fin x) _ = Fin 0"
| "np_div PInf (Fin y) = (if 0 \<le> y then PInf else NInf)"
| "np_div NInf (Fin y) = (if 0 \<le> y then NInf else PInf)"
| "np_div _ _ = NaN"

fun np_add :: "npfloat \<Rightarrow> npfloat \<Rightarrow> npfloat" where
  "np_add NaN _ = NaN"
| "np_add _ NaN = NaN"
| "np_add (Fin x) (Fin y) = Fin (x + y)"
| "np_add PInf NInf = NaN"
| "np_add NInf PInf = NaN"
| "np_add PInf _ = PInf"
| "np_add _ PInf = PInf"
| "np_add NInf _ = NInf"
| "np_add _ NInf = NInf"

definition np_sum :: "npfloat list \<Rightarrow> npfloat" where
  "np_sum xs = foldl np_add (Fin 0) xs"

text \<open>\<^verbatim>\<open>np.max\<close> of an array of finite values; an empty array raises \<^verbatim>\<open>ValueError\<close>.\<close>

definition np_max :: "real list \<Rightarrow> py_error + real" where
  "np_max xs = (case xs of [] \<Rightarrow> Inl ValueError | x # rest \<Rightarrow> Inr (fold max rest x))"

text \<open>
  \<^verbatim>\<open>np.argmax\<close>: an empty array raises \<^verbatim>\<open>ValueError\<close>. Otherwise the loop of numpy keeps
  the first largest element, replaces it when \<^verbatim>\<open>!(x <= mp)\<close>, and stops at the first
  not-a-number, which counts as largest.
\<close>

fun argmax_loop :: "npfloat list \<Rightarrow> nat \<Rightarrow> npfloat \<Rightarrow> nat \<Rightarrow> nat" where
  "argmax_loop [] i mp max_ind = max_ind"
| "argmax_loop (x # xs) i mp max_ind =
     (if \<not> np_ge mp x
      then (if x = NaN then i else argmax_loop xs (i + 1) x i)
      else argmax_loop xs (i + 1) mp max_ind)"

definition np_argmax :: "npfloat list \<Rightarrow> py_error + nat" where
  "np_argmax xs =
     (case xs of
        [] \<Rightarrow> Inl ValueError
      | x # rest \<Rightarrow> Inr (if x = NaN then 0 else argmax_loop rest 1 x 0))"

text \<open>\<^verbatim>\<open>xs[i]\<close> for a non-negative index.\<close>

definition np_index :: "'a list \<Rightarrow> nat \<Rightarrow> py_error + 'a" where
  "np_index xs i = (if i < length xs then Inr (xs ! i) else Inl IndexError)"

text \<open>\<^verbatim>\<open>xs[mask]\<close> with a boolean mask of the same length.\<close>

definition mask_select :: "'a list \<Rightarrow> bool list \<Rightarrow> 'a list" where
  "mask_select xs band = map fst (filter snd (zip xs band))"

text \<open>\<^verbatim>\<open>np.hanning(M)\<close>.\<close>

definition hanning :: "nat \<Rightarrow> real list" where
  "hanning M =
     (if M < 1 then []
      else if M = 1 then [1]
      else map (\<lambda>k. 0.5 + 0.5 * cos (pi * (2 * real k + 1 - real M) / (real M - 1))) [0..<M])"

text \<open>The discrete Fourier transform of a real sequence, and the elementwise modulus.\<close>

definition fft :: "real list \<Rightarrow> complex list" where
  "fft xs =
     map (\<lambda>k. \<Sum>j<length xs. of_real (xs ! j) * cis (- 2 * pi * real j * real k / real (length xs)))
       [0..<length xs]"

definition np_abs :: "complex list \<Rightarrow> real list" where
  "np_abs zs = map cmod zs"

text \<open>
  \<^verbatim>\<open>fftfreq(n, d)\<close>: the bin numbers \<open>0, \<dots>, (n - 1) div 2, - (n div 2), \<dots>, - 1\<close>,
  each times \<^verbatim>\<open>1.0 / (n * d)\<close>.
\<close>

definition fftfreq :: "nat \<Rightarrow> real \<Rightarrow> py_error + real list" where
  "fftfreq n d =
     and_then (py_div 1 (real n * d)) (\<lambda>val.
       Inr (map (\<lambda>k. real_of_int k * val)
              (map int [0..<(n - 1) div 2 + 1] @ map (\<lambda>k. int k - int (n div 2)) [0..<n div 2])))"

subsection \<open>The filter library\<close>

text \<open>
  The filters come from scipy (\<^verbatim>\<open>butter\<close>, \<^verbatim>\<open>iirnotch\<close>, \<^verbatim>\<open>filtfilt\<close>). Their
  floating-point results are left open: a value of \<open>numerics\<close> gives the coefficients
  of the designed filters and the samples of a filtered signal. What the library decides
  before it computes is modelled: the argument checks, the number of coefficients and
  the length of the output.
\<close>

record numerics =
  butter_coeff :: "nat \<Rightarrow> real \<Rightarrow> real \<Rightarrow> nat \<Rightarrow> real \<times> real"
  notch_coeff :: "real \<Rightarrow> real \<Rightarrow> nat \<Rightarrow> real \<times> real"
  filtfilt_sample :: "real list \<Rightarrow> real list \<Rightarrow> real list \<Rightarrow> nat \<Rightarrow> real"

text \<open>
  \<^verbatim>\<open>butter(N, [low, high], btype='band')\<close>: a digital band-pass design needs
  \<open>0 < low < high < 1\<close> (frequencies as fractions of the Nyquist frequency), raises
  \<^verbatim>\<open>ValueError\<close> otherwise, and returns \<open>2 N + 1\<close> numerator and as many denominator
  coefficients.
\<close>

definition butter :: "numerics \<Rightarrow> nat \<Rightarrow> real \<Rightarrow> real \<Rightarrow> py_error + (real list \<times> real list)" where
  "butter K N low high =
     (if low \<le> 0 \<or> high \<le> 0 then Inl ValueError
      else if \<not> low < high then Inl ValueError
      else if 1 \<le> low \<or> 1 \<le> high then Inl ValueError
      else Inr (map (\<lambda>i. fst (butter_coeff K N low high i)) [0..<2 * N + 1],
                map (\<lambda>i. snd (butter_coeff K N low high i)) [0..<2 * N + 1]))"

text \<open>
  \<^verbatim>\<open>iirnotch(w0, Q, fs)\<close>: normalises \<^verbatim>\<open>w0 = 2*w0/fs\<close>, raises \<^verbatim>\<open>ValueError\<close> when the
  result is above 1 or below 0, and returns three numerator and three denominator
  coefficients.
\<close>

definition iirnotch :: "numerics \<Rightarrow> real \<Rightarrow> real \<Rightarrow> real \<Rightarrow> py_error + (real list \<times> real list)" where
  "iirnotch K w0 Q sampling =
     and_then (py_div (2 * w0) sampling) (\<lambda>w.
       if 1 < w \<or> w < 0 then Inl ValueError
       else Inr (map (\<lambda>i. fst (notch_coeff K w Q i)) [0..<3],
                 map (\<lambda>i. snd (notch_coeff K w Q i)) [0..<3]))"

text \<open>
  \<^verbatim>\<open>filtfilt(b, a, x)\<close> with the default padding: the signal is extended by
  \<^verbatim>\<open>3 * max(len(a), len(b))\<close> samples at each end, and a signal that is not longer than
  this extension raises \<^verbatim>\<open>ValueError\<close>. The output has the length of the input.
\<close>

definition filtfilt :: "numerics \<Rightarrow> real list \<Rightarrow> real list \<Rightarrow> real list \<Rightarrow> py_error + real list" where
  "filtfilt K b a x =
     (if length x \<le> 3 * max (length a) (length b) then Inl ValueError
      else Inr (map (filtfilt_sample K b a x) [0..<length x]))"

text \<open>
  One instance of the numerics, for evaluating the model on concrete signals: every
  designed filter has the transfer function 1, and filtering leaves the samples as they
  are.
\<close>

definition pass_through :: numerics where
  "pass_through =
     \<lparr> butter_coeff = (\<lambda>N low high i. if i = 0 then (1, 1) else (0, 0)),
       notch_coeff = (\<lambda>w Q i. if i = 0 then (1, 1) else (0, 0)),
       filtfilt_sample = (\<lambda>b a x i. x ! i) \<rparr>"

subsection \<open>Signal preprocessing\<close>

definition preprocess :: "numerics \<Rightarrow> detector \<Rightarrow> real list \<Rightarrow> string \<Rightarrow> py_error + real list" where
  "preprocess K self data sensor_type =
     (if length data < 10 then Inr data
      else
        and_then (py_div (fst (bandpass_range self)) (fs self / 2)) (\<lambda>low.
        and_then (py_div (snd (bandpass_range self)) (fs self / 2)) (\<lambda>high.
        and_then (butter K 4 low high) (\<lambda>(b, a).
        and_then (filtfilt K b a data) (\<lambda>filtered.
        and_then (iirnotch K (notch_freq self) 30 (fs self)) (\<lambda>(b_notch, a_notch).
        and_then (filtfilt K b_notch a_notch filtered) (\<lambda>filtered.
          if sensor_type = ''piezo'' then
            and_then (iirnotch K 100 30 (fs self)) (\<lambda>(b_h, a_h).
              filtfilt K b_h a_h filtered)
          else Inr filtered)))))))"

subsection \<open>Frequency analysis\<close>

text \<open>
  The result of \<^verbatim>\<open>analyze_signal\<close> is a tuple of four values, each of them \<^verbatim>\<open>None\<close> for a
  signal of fewer than 10 samples: the dominant frequency, the frequency axis, the
  normalised magnitudes and the energy ratio.
\<close>

type_synonym analysis =
  "real option \<times> real list option \<times> npfloat list option \<times> npfloat option"

definition analyze_signal :: "detector \<Rightarrow> real list \<Rightarrow> py_error + analysis" where
  "analyze_signal self data =
     (let n = length data in
      if n < 10 then Inr (None, None, None, None)
      else
        let window = hanning n;
            windowed = map2 (*) data window;
            fft_vals = take (n div 2) (np_abs (fft windowed))
        in
        and_then (py_div 1 (fs self)) (\<lambda>d.
        and_then (fftfreq n d) (\<lambda>all_freqs.
        let freqs = take (n div 2) all_freqs in
        and_then (np_max fft_vals) (\<lambda>peak.
        let fft_vals = map (\<lambda>v. np_div (Fin v) (Fin peak)) fft_vals in
        and_then (np_argmax (drop 10 fft_vals)) (\<lambda>i.
        let dominant_idx = i + 10 in
        and_then (np_index freqs dominant_idx) (\<lambda>dominant_freq.
        let low_band = map (\<lambda>f. 50 \<le> f \<and> f < 150) freqs;
            high_band = map (\<lambda>f. 300 \<le> f \<and> f < 600) freqs;
            energy_ratio =
              np_div (np_sum (mask_select fft_vals high_band))
                     (np_add (np_sum (mask_select fft_vals low_band)) (Fin (1 / 10 ^ 9)))
        in Inr (Some dominant_freq, Some freqs, Some fft_vals, Some energy_ratio)))))))"

section \<open>Properties\<close>

subsection \<open>The thresholds table and the severity lookup\<close>

lemma threshold_init:
  "threshold (init s) ''piezo'' ''healthy'' = Inr (Fin 30, Fin 80)"
  "threshold (init s) ''piezo'' ''mild'' = Inr (Fin 80, Fin 120)"
  "threshold (init s) ''piezo'' ''severe'' = Inr (Fin 120, PInf)"
  "threshold (init s) ''mic'' ''healthy'' = Inr (Fin 100, Fin 350)"
  "threshold (init s) ''mic'' ''mild'' = Inr (Fin 350, Fin 450)"
  "threshold (init s) ''mic'' ''severe'' = Inr (Fin 450, PInf)"
  by (simp_all add: threshold_def init_def)

lemma severity_mic:
  "get_severity_level (init s) f ''mic'' =
     Inr (if np_ge f (Fin 450) then 2 else if np_ge f (Fin 350) then 1 else 0)"
  by (simp add: get_severity_level_def threshold_init)

lemma severity_piezo:
  "get_severity_level (init s) f ''piezo'' =
     Inr (if np_ge f (Fin 120) then 2 else if np_ge f (Fin 80) then 1 else 0)"
  by (simp add: get_severity_level_def threshold_init)

text \<open>
  Claim C2. For a sensor of the table and every real frequency \<open>f\<close>, the lookup compares
  \<open>f\<close> with the severe lower bound first and with the mild lower bound next, both
  comparisons inclusive: Severe (2), else Mild (1), else Healthy (0). On the mic channel
  350 Hz is Mild, 349.999 Hz is Healthy and 450 Hz is Severe.
\<close>

theorem severity_thresholds:
  assumes "sensor = ''mic'' \<or> sensor = ''piezo''"
  shows "(\<exists>severe mild.
           map_sum id fst (threshold (init s) sensor ''severe'') = Inr (Fin severe)
         \<and> map_sum id fst (threshold (init s) sensor ''mild'') = Inr (Fin mild)
         \<and> get_severity_level (init s) (Fin f) sensor =
             Inr (if severe \<le> f then 2 else if mild \<le> f then 1 else 0))
       \<and> get_severity_level (init s) (Fin 350) ''mic'' = Inr 1
       \<and> get_severity_level (init s) (Fin 349.999) ''mic'' = Inr 0
       \<and> get_severity_level (init s) (Fin 450) ''mic'' = Inr 2"
  using assms by (auto simp: severity_mic severity_piezo threshold_init)

theorem severity_thresholds_witness:
  "get_severity_level (init 5000) (Fin 100) ''piezo'' = Inr 1"
  using severity_thresholds [of "''piezo''" 5000 100]
  by (simp add: threshold_init)

text \<open>
  Claim C10. The lookup is monotone in the frequency: for a sensor of the table and real
  frequencies \<open>f1 \<le> f2\<close> the level of \<open>f1\<close> is at most the level of \<open>f2\<close>, and both
  levels are among 0, 1 and 2, also for frequencies below the healthy lower bound.
\<close>

theorem severity_monotone:
  assumes "sensor = ''mic'' \<or> sensor = ''piezo''" and "f1 \<le> f2"
  shows "\<exists>l1 l2. get_severity_level (init s) (Fin f1) sensor = Inr l1
             \<and> get_severity_level (init s) (Fin f2) sensor = Inr l2
             \<and> l1 \<le> l2 \<and> l1 \<in> {0, 1, 2} \<and> l2 \<in> {0, 1, 2}"
  using assms by (auto simp: severity_mic severity_piezo)

theorem severity_monotone_witness:
  "\<exists>l1 l2. get_severity_level (init 5000) (Fin (-5)) ''mic'' = Inr l1
             \<and> get_severity_level (init 5000) (Fin 400) ''mic'' = Inr l2
             \<and> l1 \<le> l2 \<and> l1 \<in> {0, 1, 2} \<and> l2 \<in> {0, 1, 2}"
  using severity_monotone [of "''mic''" "-5" 400 5000] by simp

text \<open>
  Claim C9, as stated, asks the lowest severity's lower bound to be 0. The table starts
  the healthy interval of the piezo channel at 30 Hz.
\<close>

theorem thresholds_lowest_bound_counterexample:
  "map_sum id fst (threshold (init 5000) ''piezo'' ''healthy'') \<noteq> Inr (Fin 0)"
  by (simp add: threshold_init)

text \<open>
  Claim C9, amended. For each sensor of the table the three intervals are contiguous and
  increasing: the upper bound of healthy is the lower bound of mild, the upper bound of
  mild is the lower bound of severe, the lower bounds increase strictly, and severe is
  unbounded above. The healthy interval starts at 30 Hz (piezo) or 100 Hz (mic), so the
  intervals cover the frequencies from that bound on.
\<close>

theorem thresholds_contiguous:
  assumes "sensor = ''mic'' \<or> sensor = ''piezo''"
  shows "\<exists>h m sv. threshold (init s) sensor ''healthy'' = Inr (Fin h, Fin m)
           \<and> threshold (init s) sensor ''mild'' = Inr (Fin m, Fin sv)
           \<and> threshold (init s) sensor ''severe'' = Inr (Fin sv, PInf)
           \<and> h < m \<and> m < sv
           \<and> h = (if sensor = ''piezo'' then 30 else 100)"
  using assms by (auto simp: threshold_init)

theorem thresholds_contiguous_witness:
  "\<exists>h m sv. threshold (init 5000) ''mic'' ''healthy'' = Inr (Fin h, Fin m)
           \<and> threshold (init 5000) ''mic'' ''mild'' = Inr (Fin m, Fin sv)
           \<and> threshold (init 5000) ''mic'' ''severe'' = Inr (Fin sv, PInf)
           \<and> h < m \<and> m < sv \<and> h = 100"
  using thresholds_contiguous [of "''mic''" 5000] by simp

subsection \<open>The decision table\<close>

text \<open>
  Claim C1, as stated, names the label of the first rule \<open>Early Osteoarthritis\<close>. The
  label the code returns for levels (2, 0) carries the grade as well.
\<close>

theorem diagnose_label_counterexample:
  "map_sum id fst (diagnose (init 5000) (Fin 450) (Fin 0) NaN NaN) \<noteq>
     Inr ''Early Osteoarthritis''"
  by (simp add: diagnose_def severity_mic severity_piezo en_dash_def)

text \<open>
  Claim C1, amended. For every pair of frequencies \<open>diagnose\<close> returns, without error,
  the label of the decision table over the two severity levels, the two
  single-channel rules first: mic level at least 1 with piezo level 0 gives
  \<open>Early Osteoarthritis (KL Grade 1-2)\<close>, so does (2, 0); piezo level at least 1 with mic
  level 0 gives \<open>Subchondral Bone Changes (Pre-OA)\<close>; (2, 2) gives
  \<open>Severe Osteoarthritis (KL Grade 3-4)\<close>; (1, 1) gives
  \<open>Moderate Osteoarthritis (KL Grade 2-3)\<close>; (0, 0) gives \<open>Healthy Knee (KL Grade 0)\<close>;
  every other pair gives \<open>Inconclusive\<close>. (The dash of the grades is an en dash.)
\<close>

theorem diagnose_decision_table:
  "\<exists>m p. get_severity_level (init s) mic_freq ''mic'' = Inr m
       \<and> get_severity_level (init s) piezo_freq ''piezo'' = Inr p
       \<and> map_sum id fst (diagnose (init s) mic_freq piezo_freq mic_energy piezo_energy) =
           Inr (if 1 \<le> m \<and> p = 0 then ''Early Osteoarthritis (KL Grade 1'' @ en_dash @ ''2)''
                else if 1 \<le> p \<and> m = 0 then ''Subchondral Bone Changes (Pre-OA)''
                else if m = 2 \<and> p = 2 then ''Severe Osteoarthritis (KL Grade 3'' @ en_dash @ ''4)''
                else if m = 1 \<and> p = 1 then ''Moderate Osteoarthritis (KL Grade 2'' @ en_dash @ ''3)''
                else if m = 0 \<and> p = 0 then ''Healthy Knee (KL Grade 0)''
                else ''Inconclusive'')"
  by (simp add: diagnose_def severity_mic severity_piezo)

theorem diagnose_decision_table_witness:
  "map_sum id fst (diagnose (init 5000) (Fin 450) (Fin 0) NaN NaN) =
      Inr (''Early Osteoarthritis (KL Grade 1'' @ en_dash @ ''2)'')"
  using diagnose_decision_table [of 5000 "Fin 450" "Fin 0" NaN NaN]
  by (simp add: severity_mic severity_piezo)

subsection \<open>Short signals\<close>

lemma init_fields [simp]:
  "fs (init s) = s" "bandpass_range (init s) = (50, 600)" "notch_freq (init s) = 50"
  by (simp_all add: init_def)

lemma and_then_simps [simp]:
  "and_then (Inl e) f = Inl e" "and_then (Inr v) f = f v"
  by (simp_all add: and_then_def)

text \<open>
  Claim C3. For every signal of fewer than 10 samples \<open>preprocess\<close> returns the input
  unchanged, whatever the sensor and the sampling frequency, and \<open>analyze_signal\<close>
  returns the tuple of four \<^verbatim>\<open>None\<close> instead of a spectrum.
\<close>

theorem short_signal:
  assumes "length data < 10"
  shows "preprocess K self data sensor_type = Inr data
       \<and> analyze_signal self data = Inr (None, None, None, None)"
  using assms by (simp add: preprocess_def analyze_signal_def)

theorem short_signal_witness:
  "preprocess pass_through (init 5000) [1, 2, 3] ''mic'' = Inr [1, 2, 3]
     \<and> analyze_signal (init 5000) [1, 2, 3] = Inr (None, None, None, None)"
  using short_signal [of "[1, 2, 3]" pass_through "init 5000" "''mic''"] by simp

subsection \<open>The filters\<close>

lemma butter_rejects: "low \<le> 0 \<or> 1 \<le> high \<Longrightarrow> butter K N low high = Inl ValueError"
  by (auto simp: butter_def)

lemma butter_accepts:
  "0 < low \<Longrightarrow> low < high \<Longrightarrow> high < 1 \<Longrightarrow>
     \<exists>b a. butter K N low high = Inr (b, a) \<and> length b = 2 * N + 1 \<and> length a = 2 * N + 1"
  by (simp add: butter_def)

lemma iirnotch_accepts:
  assumes "1200 < s" and "0 \<le> w" and "w \<le> 100"
  shows "\<exists>b a. iirnotch K w Q s = Inr (b, a) \<and> length b = 3 \<and> length a = 3"
proof -
  have "2 * w / s \<le> 1" using assms by (simp add: field_simps)
  moreover have "0 \<le> 2 * w / s" using assms by simp
  ultimately show ?thesis using assms by (simp add: iirnotch_def py_div_def not_less)
qed

lemma filtfilt_rejects:
  "length x \<le> 3 * max (length a) (length b) \<Longrightarrow> filtfilt K b a x = Inl ValueError"
  by (simp add: filtfilt_def)

lemma filtfilt_accepts:
  "3 * max (length a) (length b) < length x \<Longrightarrow>
     \<exists>y. filtfilt K b a x = Inr y \<and> length y = length x"
  by (simp add: filtfilt_def)

text \<open>
  Claim C8. The constructor stores the sampling frequency unchecked; the filters are
  built by \<open>preprocess\<close>, for a signal of at least 10 samples. For every sampling
  frequency that does not exceed 1200 Hz (the non-positive ones among them), building
  the band-pass filter reports an error at once, so that \<open>preprocess\<close> filters nothing:
  \<^verbatim>\<open>ZeroDivisionError\<close> from the division by \<^verbatim>\<open>fs / 2\<close> when the frequency is 0, and
  \<^verbatim>\<open>ValueError\<close> from the filter design otherwise.
\<close>

theorem low_sampling_frequency_fails_fast:
  assumes "s \<le> 1200" and "10 \<le> length data"
  shows "preprocess K (init s) data sensor_type =
           Inl (if s = 0 then ZeroDivisionError else ValueError)"
proof (cases "s = 0")
  case True
  with assms show ?thesis by (simp add: preprocess_def py_div_def)
next
  case False
  have "50 / (s / 2) \<le> 0 \<or> 1 \<le> 600 / (s / 2)"
  proof (cases "s < 0")
    case True
    then have "50 / (s / 2) < 0" by (simp add: divide_neg_pos field_simps)
    then show ?thesis by simp
  next
    case False
    with \<open>s \<noteq> 0\<close> have "0 < s" by simp
    with assms have "1 \<le> 600 / (s / 2)" by (simp add: field_simps)
    then show ?thesis by simp
  qed
  then have "butter K 4 (50 / (s / 2)) (600 / (s / 2)) = Inl ValueError"
    by (rule butter_rejects)
  with assms False show ?thesis by (simp add: preprocess_def py_div_def)
qed

theorem low_sampling_frequency_fails_fast_witness:
  "preprocess pass_through (init 1000) (replicate 10 0) ''mic'' = Inl ValueError"
  using low_sampling_frequency_fails_fast [of 1000 "replicate 10 0" pass_through "''mic''"]
  by simp

text \<open>
  With a sampling frequency above 1200 Hz the band-pass design succeeds with 9
  coefficients, and \<^verbatim>\<open>filtfilt\<close> then wants more than 27 samples.
\<close>

lemma bandpass_design:
  assumes "1200 < s"
  shows "\<exists>b a. butter K 4 (50 / (s / 2)) (600 / (s / 2)) = Inr (b, a)
           \<and> length b = 9 \<and> length a = 9"
proof -
  have "0 < 50 / (s / 2)" and "50 / (s / 2) < 600 / (s / 2)" and "600 / (s / 2) < 1"
    using assms by (simp_all add: field_simps)
  then show ?thesis using butter_accepts [of "50 / (s / 2)" "600 / (s / 2)" K 4] by simp
qed

lemma preprocess_rejects_up_to_27:
  assumes "1200 < s" and "10 \<le> length data" and "length data \<le> 27"
  shows "preprocess K (init s) data sensor_type = Inl ValueError"
proof -
  obtain b a where ba: "butter K 4 (50 / (s / 2)) (600 / (s / 2)) = Inr (b, a)"
      "length b = 9" "length a = 9"
    using bandpass_design [OF assms(1)] by blast
  then have "filtfilt K b a data = Inl ValueError"
    using assms by (intro filtfilt_rejects) simp
  with assms ba show ?thesis by (simp add: preprocess_def py_div_def)
qed

lemma preprocess_keeps_length:
  assumes s: "1200 < s" and n: "27 < length data"
  shows "\<exists>y. preprocess K (init s) data sensor_type = Inr y \<and> length y = length data"
proof -
  obtain b a where ba: "butter K 4 (50 / (s / 2)) (600 / (s / 2)) = Inr (b, a)"
      "length b = 9" "length a = 9"
    using bandpass_design [OF s] by blast
  obtain y1 where y1: "filtfilt K b a data = Inr y1" "length y1 = length data"
    using filtfilt_accepts [of a b data K] n ba by auto
  obtain bn an where bn: "iirnotch K 50 30 s = Inr (bn, an)" "length bn = 3" "length an = 3"
    using iirnotch_accepts [of s 50 K 30] s by auto
  obtain y2 where y2: "filtfilt K bn an y1 = Inr y2" "length y2 = length data"
    using filtfilt_accepts [of an bn y1 K] n bn y1 by auto
  obtain bh ah where bh: "iirnotch K 100 30 s = Inr (bh, ah)" "length bh = 3" "length ah = 3"
    using iirnotch_accepts [of s 100 K 30] s by auto
  obtain y3 where y3: "filtfilt K bh ah y2 = Inr y3" "length y3 = length data"
    using filtfilt_accepts [of ah bh y2 K] n bh y2 by auto
  show ?thesis
    using s n ba y1 bn y2 bh y3 by (simp add: preprocess_def py_div_def)
qed

text \<open>
  Claim C4 promises a filtered sequence of the input's length for every signal of at
  least 10 samples. At the default sampling frequency of 5000 Hz a signal of 10 samples
  passes the length guard of \<open>preprocess\<close> and is then refused by the first
  \<^verbatim>\<open>filtfilt\<close>, whose padding for the 9-coefficient band-pass filter needs more than
  27 samples: \<open>preprocess\<close> raises \<^verbatim>\<open>ValueError\<close>.
\<close>

theorem preprocess_ten_samples_raises:
  "preprocess K (init 5000) [1, 2, 3, 4, 5, 6, 7, 8, 9, 10] ''mic'' = Inl ValueError"
  by (rule preprocess_rejects_up_to_27) simp_all

subsection \<open>The spectrum\<close>

lemma length_hanning [simp]: "length (hanning M) = M"
  by (simp add: hanning_def)

lemma length_fft [simp]: "length (fft xs) = length xs"
  by (simp add: fft_def)

lemma length_np_abs [simp]: "length (np_abs zs) = length zs"
  by (simp add: np_abs_def)

lemma np_max_nonempty: "xs \<noteq> [] \<Longrightarrow> \<exists>m. np_max xs = Inr m"
  by (cases xs) (simp_all add: np_max_def)

lemma np_argmax_empty [simp]: "np_argmax [] = Inl ValueError"
  by (simp add: np_argmax_def)

lemma np_argmax_nonempty: "xs \<noteq> [] \<Longrightarrow> \<exists>i. np_argmax xs = Inr i"
  by (cases xs) (simp_all add: np_argmax_def)

lemma argmax_loop_bound: "max_ind < i \<Longrightarrow> argmax_loop xs i mp max_ind < i + length xs"
  by (induction xs i mp max_ind rule: argmax_loop.induct) auto

lemma np_argmax_bound: "np_argmax xs = Inr i \<Longrightarrow> i < length xs"
  using argmax_loop_bound [of 0 1]
  by (cases xs) (auto simp: np_argmax_def less_Suc_eq split: if_splits)

text \<open>The first half of the frequency axis: bin \<open>k\<close> lies at \<open>k / (n d)\<close>.\<close>

lemma fftfreq_ok:
  assumes "0 < n" and "d \<noteq> 0"
  shows "\<exists>fr. fftfreq n d = Inr fr \<and> length fr = n
           \<and> (\<forall>k < n div 2. fr ! k = real k * (1 / (real n * d)))"
proof -
  have len: "(n - 1) div 2 + 1 + n div 2 = n" using assms by presburger
  have "n div 2 \<le> (n - 1) div 2 + 1" by presburger
  then show ?thesis
    using assms len by (auto simp: fftfreq_def py_div_def nth_append)
qed

text \<open>
  A signal of 10 to 21 samples has at most 10 bins in its one-sided spectrum: nothing
  is left after the first 10 bins, and \<^verbatim>\<open>np.argmax\<close> raises.
\<close>

lemma analyze_few_bins:
  assumes "10 \<le> length data" and "length data \<le> 21" and "fs self \<noteq> 0"
  shows "analyze_signal self data = Inl ValueError"
proof -
  let ?n = "length data"
  let ?mags = "take (?n div 2) (np_abs (fft (map2 (*) data (hanning ?n))))"
  have "0 < ?n" and "1 / fs self \<noteq> 0" using assms by auto
  then obtain fr where fr: "fftfreq ?n (1 / fs self) = Inr fr"
    using fftfreq_ok by blast
  have "0 < length ?mags" using assms by simp
  then have "?mags \<noteq> []" by blast
  then obtain m where m: "np_max ?mags = Inr m"
    using np_max_nonempty by blast
  have "?n div 2 \<le> 10" using assms by simp
  then have "drop 10 (map (\<lambda>v. np_div (Fin v) (Fin m)) ?mags) = []" by simp
  then show ?thesis
    using assms fr m by (simp add: analyze_signal_def Let_def py_div_def)
qed

text \<open>
  From 22 samples on (and a sampling frequency other than 0) the analysis returns: the
  dominant frequency is the entry of the frequency axis at 10 plus the \<^verbatim>\<open>argmax\<close> of
  the normalised magnitudes without their first 10 bins, and the energy ratio is the
  high-band sum over the low-band sum plus \<open>10\<^sup>-\<^sup>9\<close>.
\<close>

lemma analyze_enough_bins:
  assumes n: "22 \<le> length data" and s: "fs self \<noteq> 0"
  shows "\<exists>i freqs vals.
           analyze_signal self data =
             Inr (Some (freqs ! (i + 10)), Some freqs, Some vals,
                  Some (np_div (np_sum (mask_select vals (map (\<lambda>f. 300 \<le> f \<and> f < 600) freqs)))
                          (np_add (np_sum (mask_select vals (map (\<lambda>f. 50 \<le> f \<and> f < 150) freqs)))
                             (Fin (1 / 10 ^ 9)))))
         \<and> np_argmax (drop 10 vals) = Inr i
         \<and> length freqs = length data div 2 \<and> length vals = length data div 2
         \<and> i + 10 < length data div 2"
proof -
  let ?n = "length data"
  let ?mags = "take (?n div 2) (np_abs (fft (map2 (*) data (hanning ?n))))"
  have "0 < ?n" and "1 / fs self \<noteq> 0" using assms by auto
  then obtain fr where fr: "fftfreq ?n (1 / fs self) = Inr fr" and lfr: "length fr = ?n"
    using fftfreq_ok by blast
  have "0 < length ?mags" using n by simp
  then have "?mags \<noteq> []" by blast
  then obtain m where m: "np_max ?mags = Inr m"
    using np_max_nonempty by blast
  let ?vals = "map (\<lambda>v. np_div (Fin v) (Fin m)) ?mags"
  have "10 < ?n div 2" using n by simp
  then have "0 < length (drop 10 ?vals)" by simp
  then have "drop 10 ?vals \<noteq> []" by blast
  then obtain i where i: "np_argmax (drop 10 ?vals) = Inr i"
    using np_argmax_nonempty by blast
  then have "i < length (drop 10 ?vals)" by (rule np_argmax_bound)
  then have ib: "i + 10 < ?n div 2" by simp
  have "analyze_signal self data =
          Inr (Some (take (?n div 2) fr ! (i + 10)), Some (take (?n div 2) fr), Some ?vals,
               Some (np_div
                       (np_sum (mask_select ?vals
                                  (map (\<lambda>f. 300 \<le> f \<and> f < 600) (take (?n div 2) fr))))
                       (np_add
                          (np_sum (mask_select ?vals
                                     (map (\<lambda>f. 50 \<le> f \<and> f < 150) (take (?n div 2) fr))))
                          (Fin (1 / 10 ^ 9)))))"
    using n s fr lfr m i ib
    by (simp add: analyze_signal_def Let_def py_div_def np_index_def)
  then show ?thesis
    using i ib lfr by (intro exI [of _ i] exI [of _ "take (?n div 2) fr"] exI [of _ ?vals]) simp
qed

text \<open>
  Claim C5 promises a dominant frequency, without an exception, for every signal of at
  least 10 samples. A signal of 10 samples passes the length guard of
  \<open>analyze_signal\<close>, its one-sided spectrum has 5 bins, the slice without the first 10
  bins is empty, and \<^verbatim>\<open>np.argmax\<close> raises \<^verbatim>\<open>ValueError\<close>.
\<close>

theorem analyze_ten_samples_raises:
  "analyze_signal (init 5000) [1, 2, 3, 4, 5, 6, 7, 8, 9, 10] = Inl ValueError"
  by (rule analyze_few_bins) simp_all

subsection \<open>The energy ratio away from the zero spectrum\<close>

text \<open>
  When the largest magnitude is not zero, every normalised magnitude is a finite
  non-negative number, and so is the energy ratio.
\<close>

lemma mask_select_map: "mask_select (map f xs) band = map f (mask_select xs band)"
proof -
  have "zip (map f xs) band = map (\<lambda>(x, b). (f x, b)) (zip xs band)"
    by (simp add: zip_map1)
  then show ?thesis
    by (simp add: mask_select_def filter_map comp_def case_prod_unfold)
qed

lemma set_mask_select: "set (mask_select xs band) \<subseteq> set xs"
  by (auto simp: mask_select_def dest: set_zip_leftD)

lemma foldl_np_add_Fin: "foldl np_add (Fin a) (map Fin rs) = Fin (a + sum_list rs)"
  by (induction rs arbitrary: a) (simp_all add: add.assoc)

lemma np_sum_Fin: "np_sum (map Fin rs) = Fin (sum_list rs)"
  by (simp add: np_sum_def foldl_np_add_Fin)

lemma fold_max_ge: "(a::real) \<le> fold max xs a"
  by (induction xs arbitrary: a) (auto intro: order_trans [OF max.cobounded2])

lemma np_max_nonneg: "np_max xs = Inr m \<Longrightarrow> \<forall>x \<in> set xs. 0 \<le> x \<Longrightarrow> 0 \<le> m"
  using fold_max_ge by (cases xs) (auto simp: np_max_def intro: order_trans)

lemma energy_ratio_finite:
  assumes n: "22 \<le> length data" and s: "fs self \<noteq> 0"
    and peak: "np_max (take (length data div 2)
                 (np_abs (fft (map2 (*) data (hanning (length data)))))) \<noteq> Inr 0"
  shows "\<exists>dominant freqs vals r.
           analyze_signal self data = Inr (Some dominant, Some freqs, Some vals, Some (Fin r))
         \<and> 0 \<le> r"
proof -
  let ?n = "length data"
  let ?mags = "take (?n div 2) (np_abs (fft (map2 (*) data (hanning ?n))))"
  have "0 < ?n" and "1 / fs self \<noteq> 0" using assms by auto
  then obtain fr where fr: "fftfreq ?n (1 / fs self) = Inr fr" and lfr: "length fr = ?n"
    using fftfreq_ok by blast
  have "0 < length ?mags" using n by simp
  then have "?mags \<noteq> []" by blast
  then obtain m where m: "np_max ?mags = Inr m"
    using np_max_nonempty by blast
  have nonneg: "\<forall>x \<in> set ?mags. 0 \<le> x"
    by (auto simp: np_abs_def dest!: in_set_takeD)
  with m have "0 \<le> m" by (rule np_max_nonneg)
  with m peak have mpos: "0 < m" by (cases "m = 0") auto
  let ?rs = "map (\<lambda>v. v / m) ?mags"
  let ?vals = "map (\<lambda>v. np_div (Fin v) (Fin m)) ?mags"
  have vals: "?vals = map Fin ?rs" using mpos by simp
  have rs_nonneg: "\<forall>x \<in> set ?rs. 0 \<le> x" using nonneg mpos by auto
  let ?freqs = "take (?n div 2) fr"
  let ?high = "map (\<lambda>f. 300 \<le> f \<and> f < 600) ?freqs"
  let ?low = "map (\<lambda>f. 50 \<le> f \<and> f < 150) ?freqs"
  let ?h = "sum_list (mask_select ?rs ?high)"
  let ?l = "sum_list (mask_select ?rs ?low)"
  have h: "np_sum (mask_select ?vals ?high) = Fin ?h"
    unfolding vals by (simp only: mask_select_map np_sum_Fin)
  have l: "np_sum (mask_select ?vals ?low) = Fin ?l"
    unfolding vals by (simp only: mask_select_map np_sum_Fin)
  have h0: "0 \<le> ?h" using rs_nonneg set_mask_select [of ?rs ?high]
    by (intro sum_list_nonneg) blast
  have l0: "0 \<le> ?l" using rs_nonneg set_mask_select [of ?rs ?low]
    by (intro sum_list_nonneg) blast
  have ratio: "np_div (np_sum (mask_select ?vals ?high))
                 (np_add (np_sum (mask_select ?vals ?low)) (Fin (1 / 10 ^ 9)))
               = Fin (?h / (?l + 1 / 10 ^ 9))"
  proof -
    have "np_div (Fin ?h) (np_add (Fin ?l) (Fin (1 / 10 ^ 9))) = Fin (?h / (?l + 1 / 10 ^ 9))"
      using l0 by simp
    then show ?thesis by (simp only: h l)
  qed
  have "10 < ?n div 2" using n by simp
  then have "0 < length (drop 10 ?vals)" by simp
  then have "drop 10 ?vals \<noteq> []" by blast
  then obtain i where i: "np_argmax (drop 10 ?vals) = Inr i"
    using np_argmax_nonempty by blast
  then have "i < length (drop 10 ?vals)" by (rule np_argmax_bound)
  then have ib: "i + 10 < ?n div 2" by simp
  have "analyze_signal self data =
          Inr (Some (?freqs ! (i + 10)), Some ?freqs, Some ?vals,
               Some (np_div (np_sum (mask_select ?vals ?high))
                       (np_add (np_sum (mask_select ?vals ?low)) (Fin (1 / 10 ^ 9)))))"
    using n s fr lfr m i ib
    by (simp add: analyze_signal_def Let_def py_div_def np_index_def)
  then have "analyze_signal self data =
          Inr (Some (?freqs ! (i + 10)), Some ?freqs, Some ?vals, Some (Fin (?h / (?l + 1 / 10 ^ 9))))"
    by (simp only: ratio)
  moreover have "0 \<le> ?h / (?l + 1 / 10 ^ 9)" using h0 l0 by simp
  ultimately show ?thesis by blast
qed

subsection \<open>The all-zero signal\<close>

lemma windowed_zero: "map2 (*) (replicate n (0::real)) (hanning n) = replicate n 0"
  by (rule nth_equalityI) simp_all

lemma fft_zero: "fft (replicate n 0) = replicate n 0"
  by (rule nth_equalityI) (simp_all add: fft_def)

lemma np_abs_zero: "np_abs (replicate n 0) = replicate n 0"
  by (simp add: np_abs_def)

lemma funpow_max_zero: "(max (0::real) ^^ k) 0 = 0"
  by (induction k) simp_all

lemma np_max_zero: "0 < k \<Longrightarrow> np_max (replicate k 0) = Inr 0"
  by (cases k) (simp_all add: np_max_def funpow_max_zero)

lemma np_argmax_NaN: "0 < k \<Longrightarrow> np_argmax (replicate k NaN) = Inr 0"
  by (cases k) (simp_all add: np_argmax_def)

lemma foldl_np_add_NaN: "foldl np_add NaN xs = NaN"
  by (induction xs) simp_all

lemma np_add_NaN_right: "np_add x NaN = NaN"
  by (cases x) simp_all

lemma foldl_np_add_has_NaN: "NaN \<in> set xs \<Longrightarrow> foldl np_add acc xs = NaN"
  by (induction xs arbitrary: acc) (auto simp: foldl_np_add_NaN np_add_NaN_right)

lemma np_sum_has_NaN: "NaN \<in> set xs \<Longrightarrow> np_sum xs = NaN"
  by (simp add: np_sum_def foldl_np_add_has_NaN)

lemma mask_select_member:
  assumes "k < length xs" and "length band = length xs" and "band ! k"
  shows "xs ! k \<in> set (mask_select xs band)"
proof -
  from assms have "(xs ! k, band ! k) \<in> set (zip xs band)"
    by (metis length_zip min.idem nth_mem nth_zip)
  with assms have "(xs ! k, True) \<in> set (filter snd (zip xs band))" by simp
  then show ?thesis unfolding mask_select_def by force
qed

text \<open>
  The spectrum of an all-zero signal is zero in every bin, so is its maximum, and the
  normalisation divides 0 by 0 in every bin.
\<close>

lemma analyze_zero:
  assumes n: "22 \<le> n" and s: "fs self \<noteq> 0"
  shows "\<exists>all_freqs freqs.
           fftfreq n (1 / fs self) = Inr all_freqs \<and> freqs = take (n div 2) all_freqs
         \<and> analyze_signal self (replicate n 0) =
             Inr (Some (freqs ! 10), Some freqs, Some (replicate (n div 2) NaN),
                  Some (np_div
                         (np_sum (mask_select (replicate (n div 2) NaN)
                                    (map (\<lambda>f. 300 \<le> f \<and> f < 600) freqs)))
                         (np_add
                            (np_sum (mask_select (replicate (n div 2) NaN)
                                       (map (\<lambda>f. 50 \<le> f \<and> f < 150) freqs)))
                            (Fin (1 / 10 ^ 9)))))"
proof -
  have "0 < n" and "1 / fs self \<noteq> 0" using assms by auto
  then obtain fr where fr: "fftfreq n (1 / fs self) = Inr fr" and lfr: "length fr = n"
    using fftfreq_ok by blast
  have m: "np_max (replicate (n div 2) 0) = Inr 0"
    using n by (intro np_max_zero) simp
  have a: "np_argmax (replicate (n div 2 - 10) NaN) = Inr 0"
    using n by (intro np_argmax_NaN) simp
  have "10 < n div 2" using n by simp
  then show ?thesis
    using n s fr lfr m a
    by (simp add: analyze_signal_def Let_def py_div_def np_index_def windowed_zero fft_zero
          np_abs_zero)
qed

lemma fftfreq_22:
  "\<exists>fr. fftfreq 22 (1 / 5000) = Inr fr \<and> length fr = 22 \<and> fr ! 2 = 5000 / 11"
proof -
  obtain fr where fr: "fftfreq 22 (1 / 5000) = Inr fr" "length fr = 22"
     "\<forall>k < 22 div 2. fr ! k = real k * (1 / (real 22 * (1 / 5000)))"
    using fftfreq_ok [of 22 "1 / 5000"] by auto
  from fr(3) have "fr ! 2 = real 2 * (1 / (real 22 * (1 / 5000)))" by simp
  with fr show ?thesis by simp
qed

text \<open>
  Claim C6 promises, for an all-zero signal of at least 10 samples, no exception and an
  all-zero normalised spectrum. The division by the maximum is not guarded: for 22 zero
  samples at 5000 Hz each of the 11 normalised magnitudes is not-a-number.
\<close>

theorem zero_signal_spectrum_is_nan:
  "map_sum id (\<lambda>(dominant_freq, freqs, fft_vals, energy_ratio). fft_vals)
     (analyze_signal (init 5000) (replicate 22 0)) = Inr (Some (replicate 11 NaN))"
  using analyze_zero [of 22 "init 5000"] by auto

text \<open>
  Claim C7 promises an energy ratio that is non-negative and finite for every signal of
  at least 10 samples. For 22 zero samples at 5000 Hz bin 2 lies at 454.5 Hz, inside the
  high band, its normalised magnitude is not-a-number, and so is the energy ratio.
\<close>

theorem zero_signal_ratio_is_nan:
  "map_sum id (\<lambda>(dominant_freq, freqs, fft_vals, energy_ratio). energy_ratio)
     (analyze_signal (init 5000) (replicate 22 0)) = Inr (Some NaN)"
proof -
  obtain fr where fr: "fftfreq 22 (1 / 5000) = Inr fr" "length fr = 22" "fr ! 2 = 5000 / 11"
    using fftfreq_22 by blast
  let ?high = "map (\<lambda>f. 300 \<le> f \<and> f < 600) (take 11 fr)"
  have "replicate 11 NaN ! 2 \<in> set (mask_select (replicate 11 NaN) ?high)"
    using fr by (intro mask_select_member) simp_all
  then have "np_sum (mask_select (replicate 11 NaN) ?high) = NaN"
    by (intro np_sum_has_NaN) simp
  then show ?thesis
    using analyze_zero [of 22 "init 5000"] fr by auto
qed

end
